theory Spec2Isabelle
  imports Main "HOL-Library.Sublist"
begin

section \<open>The category products lister block\<close>

text \<open>
  A shallow embedding of \<^verbatim>\<open>blocks/category-products-lister/category-products-lister.js\<close>.
  The block reads a folder reference and filter tags from authored markup, queries one of
  two endpoints, and replaces the block's content by a grid of product cards.

  Strings are \<open>string\<close>, read as the UTF-8 bytes of the JavaScript string. The operations
  that compare with ASCII patterns (\<^verbatim>\<open>startsWith\<close>, \<^verbatim>\<open>endsWith\<close>, \<^verbatim>\<open>includes\<close>, \<^verbatim>\<open>split\<close>,
  \<^verbatim>\<open>join\<close>, the three regular expressions, \<^verbatim>\<open>encodeURIComponent\<close>) act on such bytes as
  they act on the code units. \<^verbatim>\<open>trim\<close> and \<^verbatim>\<open>toUpperCase\<close> are modelled on ASCII: a byte
  above 127 is neither white space nor a letter here.
\<close>

subsection \<open>String primitives of the platform\<close>

definition startsWith :: "string \<Rightarrow> string \<Rightarrow> bool" where
  "startsWith s p = prefix p s"

definition endsWith :: "string \<Rightarrow> string \<Rightarrow> bool" where
  "endsWith s p = suffix p s"

definition includesStr :: "string \<Rightarrow> string \<Rightarrow> bool" where
  "includesStr s p = sublist p s"

definition isWhiteSpace :: "char \<Rightarrow> bool" where
  "isWhiteSpace c = (c \<in> set [CHR 0x09, CHR 0x0A, CHR 0x0B, CHR 0x0C, CHR 0x0D, CHR '' ''])"

definition trim :: "string \<Rightarrow> string" where
  "trim s = rev (dropWhile isWhiteSpace (rev (dropWhile isWhiteSpace s)))"

text \<open>\<^verbatim>\<open>s.split(",")\<close>: the empty string splits into one empty piece.\<close>

fun split :: "char \<Rightarrow> string \<Rightarrow> string list" where
  "split c [] = [[]]"
| "split c (x # xs) =
     (if x = c then [] # split c xs
      else (case split c xs of w # ws \<Rightarrow> (x # w) # ws | [] \<Rightarrow> [[x]]))"

text \<open>\<^verbatim>\<open>xs.join(sep)\<close> on an array of strings.\<close>

fun join :: "string \<Rightarrow> string list \<Rightarrow> string" where
  "join sep [] = []"
| "join sep [x] = x"
| "join sep (x # y # ys) = x @ sep @ join sep (y # ys)"

definition isLower :: "char \<Rightarrow> bool" where
  "isLower c = (97 \<le> (of_char c :: nat) \<and> (of_char c :: nat) \<le> 122)"

definition upperChar :: "char \<Rightarrow> char" where
  "upperChar c = (if isLower c then char_of ((of_char c :: nat) - 32) else c)"

definition toUpperCase :: "string \<Rightarrow> string" where
  "toUpperCase s = map upperChar s"

text \<open>\<^verbatim>\<open>encodeURIComponent\<close>: every byte outside the unreserved set becomes \<^verbatim>\<open>%XX\<close>.\<close>

definition isUnreserved :: "char \<Rightarrow> bool" where
  "isUnreserved c =
     (c \<in> set ''ABCDEFGHIJKLMNOPQRSTUVWXYZabcdefghijklmnopqrstuvwxyz0123456789-_.!~*'()'')"

definition hexDigit :: "nat \<Rightarrow> char" where
  "hexDigit n = ''0123456789ABCDEF'' ! (n mod 16)"

definition encodeChar :: "char \<Rightarrow> string" where
  "encodeChar c =
     (if isUnreserved c then [c]
      else [CHR ''%'', hexDigit ((of_char c :: nat) div 16), hexDigit ((of_char c :: nat) mod 16)])"

definition encodeURIComponent :: "string \<Rightarrow> string" where
  "encodeURIComponent s = concat (map encodeChar s)"

subsection \<open>JavaScript values\<close>

text \<open>
  The values a parsed JSON body holds, and \<^verbatim>\<open>undefined\<close>. Numbers are the integers
  (the code only tests a number for zero and prints it). An object is the list of its
  own properties.
\<close>

datatype jsval =
    JUndefined
  | JNull
  | JBool bool
  | JNum int
  | JStr string
  | JArr "jsval list"
  | JObj "(string \<times> jsval) list"

datatype error = TypeError | CollaboratorError string

fun truthy :: "jsval \<Rightarrow> bool" where
  "truthy JUndefined = False"
| "truthy JNull = False"
| "truthy (JBool b) = b"
| "truthy (JNum n) = (n \<noteq> 0)"
| "truthy (JStr s) = (s \<noteq> [])"
| "truthy (JArr xs) = True"
| "truthy (JObj kvs) = True"

text \<open>\<^verbatim>\<open>a || b\<close>.\<close>

definition orElse :: "jsval \<Rightarrow> jsval \<Rightarrow> jsval" where
  "orElse a b = (if truthy a then a else b)"

text \<open>
  \<^verbatim>\<open>v?.k\<close> for the property names the code reads (\<^verbatim>\<open>data\<close>, \<^verbatim>\<open>productsModelList\<close>,
  \<^verbatim>\<open>items\<close>, \<^verbatim>\<open>id\<close>, \<^verbatim>\<open>sku\<close>, \<^verbatim>\<open>name\<close>, \<^verbatim>\<open>image\<close>, \<^verbatim>\<open>category\<close>, \<^verbatim>\<open>_authorUrl\<close>,
  \<^verbatim>\<open>_publishUrl\<close>): none of them exists on a primitive, an array or a prototype, so
  only an object's own property gives a value.
\<close>

fun optProp :: "jsval \<Rightarrow> string \<Rightarrow> jsval" where
  "optProp (JObj kvs) k = (case map_of kvs k of Some v \<Rightarrow> v | None \<Rightarrow> JUndefined)"
| "optProp v k = JUndefined"

text \<open>\<^verbatim>\<open>v.length\<close> of a value that is not \<^verbatim>\<open>null\<close> or \<^verbatim>\<open>undefined\<close>.\<close>

fun lengthOf :: "jsval \<Rightarrow> jsval" where
  "lengthOf (JArr xs) = JNum (int (length xs))"
| "lengthOf (JStr s) = JNum (int (length s))"
| "lengthOf (JObj kvs) = optProp (JObj kvs) ''length''"
| "lengthOf v = JUndefined"

function showNat :: "nat \<Rightarrow> string" where
  "showNat n =
     (if n < 10 then [''0123456789'' ! n]
      else showNat (n div 10) @ [''0123456789'' ! (n mod 10)])"
  by pat_completeness auto
termination
  by (relation "measure id") auto

definition showInt :: "int \<Rightarrow> string" where
  "showInt i = (if i < 0 then CHR ''-'' # showNat (nat (- i)) else showNat (nat i))"

text \<open>
  \<^verbatim>\<open>String(v)\<close>; \<open>None\<close> is the TypeError of an object that carries an own, and so
  not callable, \<^verbatim>\<open>toString\<close>. An array prints its elements joined by commas, with
  \<^verbatim>\<open>null\<close> and \<^verbatim>\<open>undefined\<close> printed as nothing.
\<close>

fun toStr :: "jsval \<Rightarrow> string option" where
  "toStr JUndefined = Some ''undefined''"
| "toStr JNull = Some ''null''"
| "toStr (JBool b) = Some (if b then ''true'' else ''false'')"
| "toStr (JNum n) = Some (showInt n)"
| "toStr (JStr s) = Some s"
| "toStr (JArr xs) =
     map_option (join '','')
       (those (map (\<lambda>x. if x = JUndefined \<or> x = JNull then Some [] else toStr x) xs))"
| "toStr (JObj kvs) =
     (if ''toString'' \<in> fst ` set kvs then None else Some ''[object Object]'')"

text \<open>\<^verbatim>\<open>xs.join(sep)\<close> on an array of any values.\<close>

definition arrayJoin :: "string \<Rightarrow> jsval list \<Rightarrow> string option" where
  "arrayJoin sep xs =
     map_option (join sep)
       (those (map (\<lambda>x. if x = JUndefined \<or> x = JNull then Some [] else toStr x) xs))"

subsection \<open>The document tree\<close>

text \<open>
  A click listener is the closure of \<^verbatim>\<open>buildCard\<close>: it holds the environment flag and
  the product identifier. An element has a tag, the properties assigned to it in the
  order of assignment, its listeners and its children.
\<close>

datatype listener = ClickNavigate bool jsval

datatype node =
    Text string
  | Element string "(string \<times> string) list" "listener list" "node list"

definition createElement :: "string \<Rightarrow> node" where
  "createElement t = Element t [] [] []"

fun setProp :: "string \<Rightarrow> string \<Rightarrow> node \<Rightarrow> node" where
  "setProp k v (Element t ps ls cs) = Element t (ps @ [(k, v)]) ls cs"
| "setProp k v (Text s) = Text s"

fun getProp :: "string \<Rightarrow> node \<Rightarrow> string" where
  "getProp k (Element t ps ls cs) = (case map_of ps k of Some v \<Rightarrow> v | None \<Rightarrow> [])"
| "getProp k (Text s) = []"

fun addEventListener :: "listener \<Rightarrow> node \<Rightarrow> node" where
  "addEventListener l (Element t ps ls cs) = Element t ps (ls @ [l]) cs"
| "addEventListener l (Text s) = Text s"

fun listeners :: "node \<Rightarrow> listener list" where
  "listeners (Element t ps ls cs) = ls"
| "listeners (Text s) = []"

fun childNodes :: "node \<Rightarrow> node list" where
  "childNodes (Element t ps ls cs) = cs"
| "childNodes (Text s) = []"

fun appendNodes :: "node list \<Rightarrow> node \<Rightarrow> node" where
  "appendNodes new (Element t ps ls cs) = Element t ps ls (cs @ new)"
| "appendNodes new (Text s) = Text s"

text \<open>Assigning \<^verbatim>\<open>textContent\<close> replaces the children by one text node, or by none.\<close>

fun setTextContent :: "string \<Rightarrow> node \<Rightarrow> node" where
  "setTextContent s (Element t ps ls cs) = Element t ps ls (if s = [] then [] else [Text s])"
| "setTextContent s (Text u) = Text s"

fun textContent :: "node \<Rightarrow> string" where
  "textContent (Text s) = s"
| "textContent (Element t ps ls cs) = concat (map textContent cs)"

text \<open>
  \<^verbatim>\<open>querySelector("a[href]")\<close>: the first anchor with an \<^verbatim>\<open>href\<close> in document order.
  The \<^verbatim>\<open>href\<close> property of an anchor node holds what the browser's \<^verbatim>\<open>.href\<close> returns.
\<close>

fun firstSome :: "'a option list \<Rightarrow> 'a option" where
  "firstSome [] = None"
| "firstSome (None # xs) = firstSome xs"
| "firstSome (Some x # xs) = Some x"

fun findAnchor :: "node \<Rightarrow> node option" where
  "findAnchor (Text s) = None"
| "findAnchor (Element t ps ls cs) =
     (if t = ''a'' \<and> ''href'' \<in> fst ` set ps then Some (Element t ps ls cs)
      else firstSome (map findAnchor cs))"

text \<open>
  The block element: its \<^verbatim>\<open>data-cq-tags\<close> attribute and its children. The attribute
  stays when \<^verbatim>\<open>innerHTML\<close> is cleared; the children do not.
\<close>

record block =
  dataset_cqTags :: "string option"
  content :: "node list"

definition querySelector :: "block \<Rightarrow> node option" where
  "querySelector b = firstSome (map findAnchor (content b))"

subsection \<open>Collaborators\<close>

text \<open>
  A configuration value of \<^verbatim>\<open>readBlockConfig\<close> is a string or an array of strings.
\<close>

datatype cfgval = CStr string | CArr "string list"

fun truthyC :: "cfgval \<Rightarrow> bool" where
  "truthyC (CStr s) = (s \<noteq> [])"
| "truthyC (CArr xs) = True"

definition orElseC :: "cfgval option \<Rightarrow> cfgval \<Rightarrow> cfgval" where
  "orElseC a b = (case a of Some v \<Rightarrow> (if truthyC v then v else b) | None \<Rightarrow> b)"

record request =
  url :: string
  httpMethod :: string
  headers :: "(string \<times> string) list"

text \<open>
  What a request comes to: the \<^verbatim>\<open>fetch\<close> promise rejects, or \<^verbatim>\<open>resp.json()\<close> rejects,
  or the body parses to a value.
\<close>

datatype response = Rejected | BodyNotJson | Json jsval

text \<open>
  The environment of one render: \<^verbatim>\<open>isAuthorEnvironment()\<close>, \<^verbatim>\<open>readBlockConfig(block)\<close>,
  \<^verbatim>\<open>createOptimizedPicture(src, alt, eager, breakpoints)\<close> (a breakpoint is its optional
  media query and its width), \<^verbatim>\<open>fetch\<close> followed by \<^verbatim>\<open>resp.json()\<close>, and
  \<^verbatim>\<open>new URL(s).pathname\<close>, which is \<open>None\<close> where the constructor throws.
\<close>

record env =
  isAuthorEnvironment :: bool
  readBlockConfig :: "block \<Rightarrow> string \<Rightarrow> cfgval option"
  createOptimizedPicture ::
    "jsval \<Rightarrow> jsval \<Rightarrow> bool \<Rightarrow> (string option \<times> string) list \<Rightarrow> error + node"
  fetch :: "request \<Rightarrow> response"
  urlPathname :: "string \<Rightarrow> string option"

subsection \<open>buildCard\<close>

text \<open>Line 7: \<^verbatim>\<open>sku || id || ""\<close>.\<close>

definition productId :: "jsval \<Rightarrow> jsval" where
  "productId item =
     (let obj = (if truthy item then item else JObj [])
      in orElse (optProp obj ''sku'') (orElse (optProp obj ''id'') (JStr [])))"

text \<open>
  Lines 15 to 26, the click listener: the location it assigns for the current pathname
  (\<open>None\<close> where printing the identifier throws).
\<close>

definition basePath :: "string \<Rightarrow> string" where
  "basePath currentPath = rev (drop 1 (dropWhile (\<lambda>c. c \<noteq> CHR ''/'') (rev currentPath)))"

fun click :: "string \<Rightarrow> listener \<Rightarrow> string option" where
  "click currentPath (ClickNavigate isAuthor pid) =
     (let productPath =
        (if isAuthor then basePath currentPath @ ''/product.html''
         else basePath currentPath @ ''/product'')
      in map_option (\<lambda>p. productPath @ ''?productId='' @ encodeURIComponent p) (toStr pid))"

text \<open>Lines 31 to 49: the picture of the card, if any.\<close>

definition breakpoints :: "(string option \<times> string) list" where
  "breakpoints =
     [(Some ''(min-width: 900px)'', ''600''), (Some ''(min-width: 600px)'', ''400''),
      (None, ''320'')]"

definition makePicture :: "env \<Rightarrow> jsval \<Rightarrow> jsval \<Rightarrow> bool \<Rightarrow> error + node option" where
  "makePicture e imgUrl name isAuthor =
     (if truthy imgUrl then
        (if isAuthor then
           (case createOptimizedPicture e imgUrl (orElse name (JStr ''Product image''))
                   False breakpoints of
              Inl err \<Rightarrow> Inl err
            | Inr picture \<Rightarrow> Inr (Some picture))
         else
           (case imgUrl of
              JStr u \<Rightarrow>
                (if startsWith u ''http'' then
                   (case toStr (orElse name (JStr ''Product image'')) of
                      None \<Rightarrow> Inl TypeError
                    | Some alt \<Rightarrow>
                        Inr (Some (appendNodes
                          [setProp ''loading'' ''lazy''
                             (setProp ''alt'' alt (setProp ''src'' u (createElement ''img'')))]
                          (createElement ''picture''))))
                 else
                   (case createOptimizedPicture e imgUrl (orElse name (JStr ''Product image''))
                           False breakpoints of
                      Inl err \<Rightarrow> Inl err
                    | Inr picture \<Rightarrow> Inr (Some picture)))
            | _ \<Rightarrow> Inl TypeError))
      else Inr None)"

text \<open>Line 57: \<^verbatim>\<open>category && category.length ? category.join(", ") : ""\<close>.\<close>

definition categoryText :: "jsval \<Rightarrow> error + string" where
  "categoryText category =
     (if truthy category \<and> truthy (lengthOf category) then
        (case category of
           JArr xs \<Rightarrow> (case arrayJoin '', '' xs of None \<Rightarrow> Inl TypeError | Some s \<Rightarrow> Inr s)
         | _ \<Rightarrow> Inl TypeError)
      else Inr [])"

text \<open>
  Lines 61 to 64. The expression \<^verbatim>\<open>/^(luma:|lumaproducts:)/gi\<close> matches at the start of the
  text only, so it removes at most one prefix; a pattern letter matches itself in either
  case.
\<close>

definition startsWithCI :: "string \<Rightarrow> string \<Rightarrow> bool" where
  "startsWithCI s p = (toUpperCase (take (length p) s) = toUpperCase p)"

definition stripPrefix :: "string \<Rightarrow> string" where
  "stripPrefix s =
     (if startsWithCI s ''luma:'' then drop (length ''luma:'') s
      else if startsWithCI s ''lumaproducts:'' then drop (length ''lumaproducts:'') s
      else s)"

definition replaceSlash :: "string \<Rightarrow> string" where
  "replaceSlash s = concat (map (\<lambda>c. if c = CHR ''/'' then '' / '' else [c]) s)"

definition categoryLabel :: "string \<Rightarrow> string" where
  "categoryLabel text = toUpperCase (replaceSlash (stripPrefix text))"

definition buildCard :: "env \<Rightarrow> jsval \<Rightarrow> bool \<Rightarrow> error + node" where
  "buildCard e item isAuthor =
     (let obj = (if truthy item then item else JObj []);
          name = optProp obj ''name'';
          image = (case optProp obj ''image'' of JUndefined \<Rightarrow> JObj [] | v \<Rightarrow> v);
          category = (case optProp obj ''category'' of JUndefined \<Rightarrow> JArr [] | v \<Rightarrow> v);
          imgUrl = (if isAuthor then optProp image ''_authorUrl''
                    else optProp image ''_publishUrl'');
          pid = productId item;
          card = setProp ''className'' ''cpl-card'' (createElement ''article'');
          card = (if truthy pid
                  then addEventListener (ClickNavigate isAuthor pid)
                         (setProp ''style.cursor'' ''pointer'' card)
                  else card)
      in case makePicture e imgUrl name isAuthor of
           Inl err \<Rightarrow> Inl err
         | Inr picture \<Rightarrow>
             (let imgWrap = setProp ''className'' ''cpl-card-media'' (createElement ''div'');
                  imgWrap = (case picture of Some p \<Rightarrow> appendNodes [p] imgWrap | None \<Rightarrow> imgWrap);
                  meta = setProp ''className'' ''cpl-card-meta'' (createElement ''div'')
              in case categoryText category of
                   Inl err \<Rightarrow> Inl err
                 | Inr ctext \<Rightarrow>
                     (let cat = setTextContent (categoryLabel ctext)
                                  (setProp ''className'' ''cpl-card-category''
                                     (createElement ''p''))
                      in case toStr (orElse name (JStr [])) of
                           None \<Rightarrow> Inl TypeError
                         | Some ttext \<Rightarrow>
                             (let title = setTextContent ttext
                                            (setProp ''className'' ''cpl-card-title''
                                               (createElement ''h3''));
                                  meta = appendNodes [cat, title] meta
                              in Inr (appendNodes [imgWrap, meta] card)))))"

subsection \<open>The two fetch strategies\<close>

text \<open>
  A fetch returns the items, and the model also returns what it did on the way: the
  requests sent and the lines written by \<^verbatim>\<open>console.error\<close>.
\<close>

record fetched =
  items :: jsval
  sent :: "request list"
  logged :: "string list"

definition noCacheHeaders :: "(string \<times> string) list" where
  "noCacheHeaders =
     [(''Cache-Control'', ''no-cache, no-store, must-revalidate''), (''Pragma'', ''no-cache'')]"

definition get :: "string \<Rightarrow> request" where
  "get u = \<lparr>url = u, httpMethod = ''GET'', headers = noCacheHeaders\<rparr>"

text \<open>Lines 97 and 140: \<^verbatim>\<open>json?.data?.productsModelList?.items || []\<close>.\<close>

definition itemsOf :: "jsval \<Rightarrow> jsval" where
  "itemsOf json =
     orElse (optProp (optProp (optProp json ''data'') ''productsModelList'') ''items'') (JArr [])"

definition legacyBaseUrl :: "bool \<Rightarrow> string" where
  "legacyBaseUrl isAuthor =
     (if isAuthor
      then ''https://author-p165802-e1765367.adobeaemcloud.com/graphql/execute.json/luma3/menproductspagelister;''
      else ''https://275323-918sangriatortoise.adobeioruntime.net/api/v1/web/dx-excshell-1/lumaProductsGraphQl?'')"

definition categoryBaseUrl :: "bool \<Rightarrow> string" where
  "categoryBaseUrl isAuthor =
     (if isAuthor
      then ''https://author-p165802-e1765367.adobeaemcloud.com/graphql/execute.json/luma3/categoryFilteredProductsLister;''
      else ''https://275323-918sangriatortoise.adobeioruntime.net/api/v1/web/dx-excshell-1/categoryFilteredProductsLister?'')"

definition fetchLegacyProducts :: "env \<Rightarrow> string \<Rightarrow> fetched" where
  "fetchLegacyProducts e path =
     (if path = [] then \<lparr>items = JArr [], sent = [], logged = []\<rparr>
      else
        (let baseUrl = legacyBaseUrl (isAuthorEnvironment e);
             req = get (baseUrl @ ''_path='' @ path)
         in case fetch e req of
              Json json \<Rightarrow> \<lparr>items = itemsOf json, sent = [req], logged = []\<rparr>
            | _ \<Rightarrow> \<lparr>items = JArr [], sent = [req],
                     logged = [''Category Products Lister (Legacy): fetch error'']\<rparr>))"

text \<open>Lines 126 to 128: the filter as one comma-separated string.\<close>

fun categoryParam :: "cfgval \<Rightarrow> string" where
  "categoryParam (CArr xs) = join '','' xs"
| "categoryParam (CStr s) = s"

definition fetchCategoryFilteredProducts :: "env \<Rightarrow> string \<Rightarrow> cfgval \<Rightarrow> fetched" where
  "fetchCategoryFilteredProducts e path categoryFilter =
     (if path = [] then \<lparr>items = JArr [], sent = [], logged = []\<rparr>
      else
        (let baseUrl = categoryBaseUrl (isAuthorEnvironment e);
             u = baseUrl @ ''_path='' @ path;
             u = (if truthyC categoryFilter
                  then u @ ''&category='' @ encodeURIComponent (categoryParam categoryFilter)
                  else u);
             req = get u
         in case fetch e req of
              Json json \<Rightarrow> \<lparr>items = itemsOf json, sent = [req], logged = []\<rparr>
            | _ \<Rightarrow> \<lparr>items = JArr [], sent = [req],
                     logged = [''Category Products Lister (Category Filtered): fetch error'']\<rparr>))"

subsection \<open>renderHeader\<close>

fun tagList :: "cfgval \<Rightarrow> string list" where
  "tagList (CArr xs) = xs"
| "tagList (CStr s) = split CHR '','' s"

definition chips :: "cfgval \<Rightarrow> string list" where
  "chips selectedTags = filter (\<lambda>t. t \<noteq> []) (map trim (tagList selectedTags))"

definition chip :: "string \<Rightarrow> node" where
  "chip tag = setTextContent tag (setProp ''className'' ''cpl-tag'' (createElement ''span''))"

fun emptyTags :: "cfgval \<Rightarrow> bool" where
  "emptyTags (CStr s) = (s = [])"
| "emptyTags (CArr xs) = (xs = [])"

text \<open>The container is the list of the block's children; the header is appended to it.\<close>

definition renderHeader :: "node list \<Rightarrow> cfgval \<Rightarrow> node list" where
  "renderHeader container selectedTags =
     (if emptyTags selectedTags then container
      else
        (let wrap = setProp ''className'' ''cpl-tags'' (createElement ''div'');
             wrap = appendNodes (map chip (chips selectedTags)) wrap
         in container @ [wrap]))"

subsection \<open>decorate\<close>

text \<open>Lines 175 to 184: the folder reference as authored.\<close>

definition extractFolder :: "env \<Rightarrow> block \<Rightarrow> cfgval" where
  "extractFolder e b =
     (let folderHref =
        (case querySelector b of
           None \<Rightarrow> []
         | Some a \<Rightarrow>
             (if getProp ''href'' a \<noteq> [] then getProp ''href'' a
              else trim (textContent a)));
          cfg = readBlockConfig e b
      in if folderHref \<noteq> [] then CStr folderHref
         else orElseC (cfg ''folder'') (orElseC (cfg ''reference'') (orElseC (cfg ''path'') (CStr []))))"

text \<open>
  Lines 187 to 199. On an array \<^verbatim>\<open>startsWith\<close> is not a function, which the \<^verbatim>\<open>try\<close>
  swallows, and neither is \<^verbatim>\<open>endsWith\<close>, which nothing catches.
\<close>

definition stripHtml :: "string \<Rightarrow> string" where
  "stripHtml s = (if endsWith s ''.html'' then take (length s - length ''.html'') s else s)"

fun normalizeFolder :: "env \<Rightarrow> cfgval \<Rightarrow> error + string" where
  "normalizeFolder e (CArr xs) = Inl TypeError"
| "normalizeFolder e (CStr s) =
     (let s = (if s \<noteq> [] \<and> startsWith s ''http''
               then (case urlPathname e s of Some p \<Rightarrow> p | None \<Rightarrow> s)
               else s)
      in Inr (stripHtml s))"

text \<open>Line 202: the filter tags as authored.\<close>

definition extractTags :: "env \<Rightarrow> block \<Rightarrow> cfgval" where
  "extractTags e b =
     (let cfg = readBlockConfig e b
      in orElseC (map_option CStr (dataset_cqTags b))
           (orElseC (cfg ''tags'') (orElseC (cfg ''cq:tags'') (CStr []))))"

datatype strategy = Legacy | CategoryFiltered

text \<open>Line 214.\<close>

definition isLegacyLuma3 :: "string \<Rightarrow> bool" where
  "isLegacyLuma3 folderHref = (folderHref \<noteq> [] \<and> includesStr folderHref ''/dam/luma3/'')"

text \<open>
  Lines 225 to 234, on the fetched value: the empty state, or the cards, or the
  TypeError of \<^verbatim>\<open>items.map\<close> on a value that is no array.
\<close>

fun sequence :: "(error + 'a) list \<Rightarrow> error + 'a list" where
  "sequence [] = Inr []"
| "sequence (Inl err # xs) = Inl err"
| "sequence (Inr x # xs) = (case sequence xs of Inl err \<Rightarrow> Inl err | Inr ys \<Rightarrow> Inr (x # ys))"

definition emptyMessage :: node where
  "emptyMessage =
     setTextContent ''No products found.''
       (setProp ''className'' ''cpl-empty'' (createElement ''p''))"

definition fillGrid :: "env \<Rightarrow> bool \<Rightarrow> jsval \<Rightarrow> error + node list" where
  "fillGrid e isAuthor its =
     (if \<not> truthy its \<or> lengthOf its = JNum 0 then Inr [emptyMessage]
      else
        (case its of
           JArr xs \<Rightarrow> sequence (map (\<lambda>item. buildCard e item isAuthor) xs)
         | _ \<Rightarrow> Inl TypeError))"

text \<open>
  What one call of \<^verbatim>\<open>decorate\<close> leaves: the block, the strategy it invoked, the
  requests sent, the console lines, and the error if the returned promise rejects.
\<close>

record outcome =
  final :: block
  invoked :: "strategy option"
  requests :: "request list"
  console :: "string list"
  thrown :: "error option"

definition decorate :: "env \<Rightarrow> block \<Rightarrow> outcome" where
  "decorate e b =
     (let isAuthor = isAuthorEnvironment e
      in case normalizeFolder e (extractFolder e b) of
           Inl err \<Rightarrow>
             \<lparr>final = b, invoked = None, requests = [], console = [], thrown = Some err\<rparr>
         | Inr folderHref \<Rightarrow>
             (let tags = extractTags e b;
                  header = renderHeader [] tags;
                  grid = setProp ''className'' ''cpl-grid'' (createElement ''div'');
                  strat = (if isLegacyLuma3 folderHref then Legacy else CategoryFiltered);
                  got = (if isLegacyLuma3 folderHref then fetchLegacyProducts e folderHref
                         else fetchCategoryFilteredProducts e folderHref tags)
              in case fillGrid e isAuthor (items got) of
                   Inl err \<Rightarrow>
                     \<lparr>final = b\<lparr>content := header @ [grid]\<rparr>, invoked = Some strat,
                      requests = sent got, console = logged got, thrown = Some err\<rparr>
                 | Inr cells \<Rightarrow>
                     \<lparr>final = b\<lparr>content := header @ [appendNodes cells grid]\<rparr>,
                      invoked = Some strat, requests = sent got, console = logged got,
                      thrown = None\<rparr>))"

subsection \<open>The reading side of the category parameter\<close>

text \<open>
  The inverse of \<^verbatim>\<open>encodeURIComponent\<close> that an endpoint applies to a query value. It is
  not part of the block; the round trip of the category parameter is stated with it.
\<close>

definition hexValue :: "char \<Rightarrow> nat option" where
  "hexValue c = map_of (zip ''0123456789ABCDEF'' [0 ..< 16]) c"

fun decodeURIComponent :: "string \<Rightarrow> string option" where
  "decodeURIComponent [] = Some []"
| "decodeURIComponent (c # cs) =
     (if c = CHR ''%'' then
        (case cs of
           h # l # rest \<Rightarrow>
             (case (hexValue h, hexValue l) of
                (Some a, Some b) \<Rightarrow>
                  map_option ((#) (char_of (16 * a + b))) (decodeURIComponent rest)
              | _ \<Rightarrow> None)
         | _ \<Rightarrow> None)
      else map_option ((#) c) (decodeURIComponent cs))"

subsection \<open>Sample collaborators and blocks\<close>

text \<open>
  Concrete collaborators for the examples below. The URL reader takes
  \<^verbatim>\<open>scheme://authority/path?query#fragment\<close> apart and fails on a text without a scheme;
  the picture helper returns a picture holding one image.
\<close>

definition isSchemeChar :: "char \<Rightarrow> bool" where
  "isSchemeChar c = (c \<in> set ''ABCDEFGHIJKLMNOPQRSTUVWXYZabcdefghijklmnopqrstuvwxyz0123456789+-.'')"

definition sampleUrlPathname :: "string \<Rightarrow> string option" where
  "sampleUrlPathname s =
     (let scheme = takeWhile (\<lambda>c. c \<noteq> CHR '':'') s;
          rest = dropWhile (\<lambda>c. c \<noteq> CHR '':'') s
      in if scheme \<noteq> [] \<and> list_all isSchemeChar scheme \<and> startsWith rest ''://''
         then
           (let afterAuthority = dropWhile (\<lambda>c. c \<noteq> CHR ''/'') (drop 3 rest);
                path = takeWhile (\<lambda>c. c \<noteq> CHR ''?'' \<and> c \<noteq> CHR ''#'') afterAuthority
            in Some (if path = [] then ''/'' else path))
         else None)"

definition samplePicture ::
  "jsval \<Rightarrow> jsval \<Rightarrow> bool \<Rightarrow> (string option \<times> string) list \<Rightarrow> error + node" where
  "samplePicture src alt eager bps =
     (case (toStr src, toStr alt) of
        (Some s, Some a) \<Rightarrow>
          Inr (Element ''picture'' [] [] [Element ''img'' [(''src'', s), (''alt'', a)] [] []])
      | _ \<Rightarrow> Inl TypeError)"

definition sampleEnv :: "bool \<Rightarrow> (string \<times> cfgval) list \<Rightarrow> response \<Rightarrow> env" where
  "sampleEnv author cfg r =
     \<lparr>isAuthorEnvironment = author,
      readBlockConfig = (\<lambda>b. map_of cfg),
      createOptimizedPicture = samplePicture,
      fetch = (\<lambda>req. r),
      urlPathname = sampleUrlPathname\<rparr>"

definition anchorBlock :: "string \<Rightarrow> string \<Rightarrow> block" where
  "anchorBlock href label =
     \<lparr>dataset_cqTags = None,
      content = [Element ''div'' [] [] [Element ''div'' [] [] [Element ''a'' [(''href'', href)] [] [Text label]]]]\<rparr>"

definition plainBlock :: "string option \<Rightarrow> block" where
  "plainBlock tags = \<lparr>dataset_cqTags = tags, content = [Element ''div'' [] [] [Text ''products'']]\<rparr>"

definition itemsBody :: "jsval list \<Rightarrow> response" where
  "itemsBody xs = Json (JObj [(''data'', JObj [(''productsModelList'', JObj [(''items'', JArr xs)])])])"

definition shoe :: jsval where
  "shoe =
     JObj [(''sku'', JStr ''M1''), (''name'', JStr ''Shoe''),
           (''image'', JObj [(''_publishUrl'', JStr ''http://x/img.png'')]),
           (''category'', JArr [JStr ''luma:men''])]"

text \<open>
  Scenario A: a legacy folder authored as a link, one product, published environment.
  Scenario B: a category folder and the tags \<^verbatim>\<open>red, blue\<close> from the configuration, no
  product. Scenario C: as B, with a request that fails.
\<close>

definition envA :: env where
  "envA = sampleEnv False [(''tags'', CStr ''red, blue'')] (itemsBody [shoe])"

definition blockA :: block where
  "blockA = anchorBlock ''https://publish.example.com/content/dam/luma3/men-products.html'' ''men''"

definition envB :: env where
  "envB =
     sampleEnv False [(''folder'', CStr ''/content/cat/shirts''), (''tags'', CStr ''red, blue'')]
       (itemsBody [])"

definition envC :: env where
  "envC =
     sampleEnv False [(''folder'', CStr ''/content/cat/shirts''), (''tags'', CStr ''red, blue'')]
       Rejected"

section \<open>Properties\<close>

subsection \<open>Which strategy runs, and what it sends\<close>

lemma decorate_folder:
  assumes "normalizeFolder e (extractFolder e b) = Inr path"
  shows "invoked (decorate e b) = Some (if isLegacyLuma3 path then Legacy else CategoryFiltered)"
    and "requests (decorate e b) =
           sent (if isLegacyLuma3 path then fetchLegacyProducts e path
                 else fetchCategoryFilteredProducts e path (extractTags e b))"
  using assms by (simp_all add: decorate_def Let_def split: sum.splits)

text \<open>
  C1. When the resolved folder path contains \<^verbatim>\<open>/dam/luma3/\<close>, \<^verbatim>\<open>decorate\<close> invokes the legacy
  strategy, and the one request it sends goes to the legacy endpoint with the URL
  \<^verbatim>\<open>base + "_path=" + path\<close> and nothing after it, whatever the block's tags are.
\<close>

theorem legacy_path_uses_legacy_strategy:
  assumes "normalizeFolder e (extractFolder e b) = Inr path"
    and "includesStr path ''/dam/luma3/''"
  shows "invoked (decorate e b) = Some Legacy \<and>
         requests (decorate e b) =
           [get (legacyBaseUrl (isAuthorEnvironment e) @ ''_path='' @ path)]"
proof -
  from assms(2) have ne: "path \<noteq> []"
    by (auto simp: includesStr_def)
  with assms(2) have leg: "isLegacyLuma3 path"
    by (simp add: isLegacyLuma3_def)
  have "sent (fetchLegacyProducts e path) =
          [get (legacyBaseUrl (isAuthorEnvironment e) @ ''_path='' @ path)]"
    using ne by (simp add: fetchLegacyProducts_def Let_def split: response.splits)
  with leg decorate_folder[OF assms(1)] show ?thesis by simp
qed

theorem legacy_path_uses_legacy_strategy_witness:
  "normalizeFolder envA (extractFolder envA blockA) = Inr ''/content/dam/luma3/men-products'' \<and>
   includesStr ''/content/dam/luma3/men-products'' ''/dam/luma3/'' \<and>
   extractTags envA blockA = CStr ''red, blue'' \<and>
   invoked (decorate envA blockA) = Some Legacy \<and>
   map url (requests (decorate envA blockA)) =
     [''https://275323-918sangriatortoise.adobeioruntime.net/api/v1/web/dx-excshell-1/lumaProductsGraphQl?_path=/content/dam/luma3/men-products'']"
proof -
  have h1: "normalizeFolder envA (extractFolder envA blockA) = Inr ''/content/dam/luma3/men-products''"
    by code_simp
  have h2: "includesStr ''/content/dam/luma3/men-products'' ''/dam/luma3/''"
    by code_simp
  have h3: "legacyBaseUrl (isAuthorEnvironment envA) @ ''_path='' @ ''/content/dam/luma3/men-products''
     = ''https://275323-918sangriatortoise.adobeioruntime.net/api/v1/web/dx-excshell-1/lumaProductsGraphQl?_path=/content/dam/luma3/men-products''"
    by code_simp
  have h4: "extractTags envA blockA = CStr ''red, blue''"
    by code_simp
  show ?thesis
    using legacy_path_uses_legacy_strategy[OF h1 h2] h1 h2 h3 h4 by (simp add: get_def)
qed

subsection \<open>Failures of the request\<close>

lemma normalizeFolder_CStr:
  "normalizeFolder e (CStr ref) =
     Inr (stripHtml (if ref \<noteq> [] \<and> startsWith ref ''http''
                     then (case urlPathname e ref of Some p \<Rightarrow> p | None \<Rightarrow> ref) else ref))"
  by (simp add: Let_def)

lemma decorate_empty_state:
  assumes "normalizeFolder e (extractFolder e b) = Inr path"
    and "items (if isLegacyLuma3 path then fetchLegacyProducts e path
                else fetchCategoryFilteredProducts e path (extractTags e b)) = JArr []"
  shows "thrown (decorate e b) = None"
    and "content (final (decorate e b)) =
           renderHeader [] (extractTags e b) @
             [Element ''div'' [(''className'', ''cpl-grid'')] [] [emptyMessage]]"
  using assms
  by (simp_all add: decorate_def Let_def fillGrid_def createElement_def split: if_splits)

lemma fetch_failure_items:
  assumes "fetch e (get u) = Rejected \<or> fetch e (get u) = BodyNotJson"
  shows "(case fetch e (get u) of Json json \<Rightarrow> f json | _ \<Rightarrow> d) = d"
  using assms by auto

lemma fetchLegacyProducts_failure:
  assumes "\<forall>r. fetch e r = Rejected \<or> fetch e r = BodyNotJson"
  shows "items (fetchLegacyProducts e p) = JArr []"
proof (cases "p = []")
  case True
  then show ?thesis by (simp add: fetchLegacyProducts_def)
next
  case False
  let ?r = "get (legacyBaseUrl (isAuthorEnvironment e) @ ''_path='' @ p)"
  from assms have "fetch e ?r = Rejected \<or> fetch e ?r = BodyNotJson" by blast
  with False show ?thesis
    by (auto simp: fetchLegacyProducts_def Let_def)
qed

lemma fetchCategoryFilteredProducts_failure:
  assumes "\<forall>r. fetch e r = Rejected \<or> fetch e r = BodyNotJson"
  shows "items (fetchCategoryFilteredProducts e p t) = JArr []"
proof (cases "p = []")
  case True
  then show ?thesis by (simp add: fetchCategoryFilteredProducts_def)
next
  case False
  let ?u = "categoryBaseUrl (isAuthorEnvironment e) @ ''_path='' @ p"
  let ?r = "get (if truthyC t then ?u @ ''&category='' @ encodeURIComponent (categoryParam t) else ?u)"
  from assms have "fetch e ?r = Rejected \<or> fetch e ?r = BodyNotJson" by blast
  with False show ?thesis
    by (auto simp: fetchCategoryFilteredProducts_def Let_def)
qed

text \<open>
  C3. When every request is rejected or answers with a body that is not JSON, both
  strategies return the empty array, and \<^verbatim>\<open>decorate\<close> on a block whose folder reference
  is a string completes without throwing and leaves the header followed by a grid that
  holds the one message "No products found.".
\<close>

theorem fetch_failure_gives_empty_state:
  assumes "extractFolder e b = CStr ref"
    and "\<forall>r. fetch e r = Rejected \<or> fetch e r = BodyNotJson"
  shows "items (fetchLegacyProducts e p) = JArr [] \<and>
         items (fetchCategoryFilteredProducts e pa t) = JArr [] \<and>
         thrown (decorate e b) = None \<and>
         content (final (decorate e b)) =
           renderHeader [] (extractTags e b) @
             [Element ''div'' [(''className'', ''cpl-grid'')] [] [emptyMessage]]"
proof -
  obtain path where n: "normalizeFolder e (extractFolder e b) = Inr path"
    using assms(1) by (simp add: normalizeFolder_CStr)
  have i: "items (if isLegacyLuma3 path then fetchLegacyProducts e path
                else fetchCategoryFilteredProducts e path (extractTags e b)) = JArr []"
    using fetchLegacyProducts_failure[OF assms(2)] fetchCategoryFilteredProducts_failure[OF assms(2)]
    by simp
  show ?thesis
    using fetchLegacyProducts_failure[OF assms(2)] fetchCategoryFilteredProducts_failure[OF assms(2)]
      decorate_empty_state[OF n i] by simp
qed

theorem fetch_failure_gives_empty_state_witness:
  "extractFolder envC (plainBlock None) = CStr ''/content/cat/shirts'' \<and>
   (\<forall>r. fetch envC r = Rejected \<or> fetch envC r = BodyNotJson) \<and>
   items (fetchLegacyProducts envC ''/content/dam/luma3/men'') = JArr [] \<and>
   items (fetchCategoryFilteredProducts envC ''/content/cat/shirts'' (CStr ''red'')) = JArr [] \<and>
   thrown (decorate envC (plainBlock None)) = None \<and>
   content (final (decorate envC (plainBlock None))) =
     [Element ''div'' [(''className'', ''cpl-tags'')] []
        [Element ''span'' [(''className'', ''cpl-tag'')] [] [Text ''red''],
         Element ''span'' [(''className'', ''cpl-tag'')] [] [Text ''blue'']],
      Element ''div'' [(''className'', ''cpl-grid'')] []
        [Element ''p'' [(''className'', ''cpl-empty'')] [] [Text ''No products found.'']]]"
proof -
  have h1: "extractFolder envC (plainBlock None) = CStr ''/content/cat/shirts''"
    by code_simp
  have h2: "\<forall>r. fetch envC r = Rejected \<or> fetch envC r = BodyNotJson"
    by (simp add: envC_def sampleEnv_def)
  have h3: "renderHeader [] (extractTags envC (plainBlock None)) @
             [Element ''div'' [(''className'', ''cpl-grid'')] [] [emptyMessage]] =
     [Element ''div'' [(''className'', ''cpl-tags'')] []
        [Element ''span'' [(''className'', ''cpl-tag'')] [] [Text ''red''],
         Element ''span'' [(''className'', ''cpl-tag'')] [] [Text ''blue'']],
      Element ''div'' [(''className'', ''cpl-grid'')] []
        [Element ''p'' [(''className'', ''cpl-empty'')] [] [Text ''No products found.'']]]"
    by code_simp
  show ?thesis
    using fetch_failure_gives_empty_state[OF h1 h2, where p = "''/content/dam/luma3/men''"
        and pa = "''/content/cat/shirts''" and t = "CStr ''red''"] h1 h2 h3
    by simp
qed

subsection \<open>The response path and the empty state\<close>





subsection \<open>The empty folder reference\<close>

text \<open>
  C10. On the empty path both strategies return the empty array and send no request;
  and when the folder reference extracted from the block is the empty string (no anchor,
  no configured folder), \<^verbatim>\<open>decorate\<close> invokes the category strategy, sends no request,
  does not throw, and leaves a grid that holds the one message "No products found.".
\<close>

theorem empty_folder_sends_nothing:
  "fetchLegacyProducts e [] = \<lparr>items = JArr [], sent = [], logged = []\<rparr> \<and>
   fetchCategoryFilteredProducts e [] t = \<lparr>items = JArr [], sent = [], logged = []\<rparr> \<and>
   (extractFolder e b = CStr [] \<longrightarrow>
      invoked (decorate e b) = Some CategoryFiltered \<and>
      requests (decorate e b) = [] \<and>
      thrown (decorate e b) = None \<and>
      content (final (decorate e b)) =
        renderHeader [] (extractTags e b) @
          [Element ''div'' [(''className'', ''cpl-grid'')] [] [emptyMessage]])"
proof -
  have a: "fetchLegacyProducts e [] = \<lparr>items = JArr [], sent = [], logged = []\<rparr>"
    by (simp add: fetchLegacyProducts_def)
  have b: "fetchCategoryFilteredProducts e [] t = \<lparr>items = JArr [], sent = [], logged = []\<rparr>" for t
    by (simp add: fetchCategoryFilteredProducts_def)
  have c: "extractFolder e b = CStr [] \<longrightarrow>
      invoked (decorate e b) = Some CategoryFiltered \<and>
      requests (decorate e b) = [] \<and>
      thrown (decorate e b) = None \<and>
      content (final (decorate e b)) =
        renderHeader [] (extractTags e b) @
          [Element ''div'' [(''className'', ''cpl-grid'')] [] [emptyMessage]]"
  proof
    assume z: "extractFolder e b = CStr []"
    have n: "normalizeFolder e (extractFolder e b) = Inr []"
      using z by (simp add: stripHtml_def endsWith_def)
    have l: "\<not> isLegacyLuma3 []"
      by (simp add: isLegacyLuma3_def)
    have i: "items (if isLegacyLuma3 [] then fetchLegacyProducts e []
                else fetchCategoryFilteredProducts e [] (extractTags e b)) = JArr []"
      using l b by simp
    show "invoked (decorate e b) = Some CategoryFiltered \<and>
      requests (decorate e b) = [] \<and>
      thrown (decorate e b) = None \<and>
      content (final (decorate e b)) =
        renderHeader [] (extractTags e b) @
          [Element ''div'' [(''className'', ''cpl-grid'')] [] [emptyMessage]]"
      using decorate_folder[OF n] decorate_empty_state[OF n i] l b by simp
  qed
  from a b c show ?thesis by blast
qed

theorem empty_folder_sends_nothing_witness:
  "extractFolder (sampleEnv False [] (itemsBody [shoe])) (plainBlock None) = CStr [] \<and>
   requests (decorate (sampleEnv False [] (itemsBody [shoe])) (plainBlock None)) = [] \<and>
   thrown (decorate (sampleEnv False [] (itemsBody [shoe])) (plainBlock None)) = None \<and>
   content (final (decorate (sampleEnv False [] (itemsBody [shoe])) (plainBlock None))) =
     [Element ''div'' [(''className'', ''cpl-grid'')] []
        [Element ''p'' [(''className'', ''cpl-empty'')] [] [Text ''No products found.'']]]"
proof -
  let ?E = "sampleEnv False [] (itemsBody [shoe])"
  have h1: "extractFolder ?E (plainBlock None) = CStr []"
    by code_simp
  have h2: "renderHeader [] (extractTags ?E (plainBlock None)) @
          [Element ''div'' [(''className'', ''cpl-grid'')] [] [emptyMessage]] =
     [Element ''div'' [(''className'', ''cpl-grid'')] []
        [Element ''p'' [(''className'', ''cpl-empty'')] [] [Text ''No products found.'']]]"
    by code_simp
  show ?thesis
    using empty_folder_sends_nothing[of ?E "CStr []" "plainBlock None"] h1 h2 by simp
qed

subsection \<open>The card\<close>

lemma listeners_appendNodes [simp]: "listeners (appendNodes ns n) = listeners n"
  by (cases n) simp_all

lemma buildCard_listeners:
  assumes "buildCard e item isAuthor = Inr el"
  shows "listeners el =
           (if truthy (productId item) then [ClickNavigate isAuthor (productId item)] else [])"
  using assms
  by (auto simp: buildCard_def Let_def createElement_def
      split: sum.splits option.splits if_splits)

text \<open>
  C5. The product identifier of a record is its \<^verbatim>\<open>sku\<close> if that is truthy, else its \<^verbatim>\<open>id\<close>
  if that is truthy, else the empty string; a card that \<^verbatim>\<open>buildCard\<close> returns carries the
  click listener exactly when the identifier is truthy, so the card of a record with
  neither \<^verbatim>\<open>sku\<close> nor \<^verbatim>\<open>id\<close> has no listener.
\<close>

theorem product_identifier_and_interactivity:
  "productId item =
     (if truthy (optProp (if truthy item then item else JObj []) ''sku'')
      then optProp (if truthy item then item else JObj []) ''sku''
      else if truthy (optProp (if truthy item then item else JObj []) ''id'')
      then optProp (if truthy item then item else JObj []) ''id''
      else JStr []) \<and>
   (buildCard e item isAuthor = Inr el \<longrightarrow>
      listeners el =
        (if truthy (productId item) then [ClickNavigate isAuthor (productId item)] else []) \<and>
      (\<not> truthy (optProp item ''sku'') \<and> \<not> truthy (optProp item ''id'') \<longrightarrow>
         listeners el = []))"
proof -
  have a: "productId item =
     (if truthy (optProp (if truthy item then item else JObj []) ''sku'')
      then optProp (if truthy item then item else JObj []) ''sku''
      else if truthy (optProp (if truthy item then item else JObj []) ''id'')
      then optProp (if truthy item then item else JObj []) ''id''
      else JStr [])"
    by (simp add: productId_def orElse_def Let_def)
  have b: "\<not> truthy (optProp item ''sku'') \<and> \<not> truthy (optProp item ''id'')
             \<longrightarrow> \<not> truthy (productId item)"
    by (simp add: productId_def orElse_def Let_def)
  show ?thesis
    using a b buildCard_listeners[of e item isAuthor el] by auto
qed

theorem product_identifier_and_interactivity_witness:
  "buildCard envA (JObj [(''name'', JStr ''Hat'')]) False =
     Inr (Element ''article'' [(''className'', ''cpl-card'')] []
            [Element ''div'' [(''className'', ''cpl-card-media'')] [] [],
             Element ''div'' [(''className'', ''cpl-card-meta'')] []
               [Element ''p'' [(''className'', ''cpl-card-category'')] [] [],
                Element ''h3'' [(''className'', ''cpl-card-title'')] [] [Text ''Hat'']]]) \<and>
   \<not> truthy (optProp (JObj [(''name'', JStr ''Hat'')]) ''sku'') \<and>
   \<not> truthy (optProp (JObj [(''name'', JStr ''Hat'')]) ''id'') \<and>
   productId (JObj [(''name'', JStr ''Hat'')]) = JStr [] \<and>
   listeners (Element ''article'' [(''className'', ''cpl-card'')] []
            [Element ''div'' [(''className'', ''cpl-card-media'')] [] [],
             Element ''div'' [(''className'', ''cpl-card-meta'')] []
               [Element ''p'' [(''className'', ''cpl-card-category'')] [] [],
                Element ''h3'' [(''className'', ''cpl-card-title'')] [] [Text ''Hat'']]]) = []"
proof -
  let ?item = "JObj [(''name'', JStr ''Hat'')]"
  let ?el = "Element ''article'' [(''className'', ''cpl-card'')] []
            [Element ''div'' [(''className'', ''cpl-card-media'')] [] [],
             Element ''div'' [(''className'', ''cpl-card-meta'')] []
               [Element ''p'' [(''className'', ''cpl-card-category'')] [] [],
                Element ''h3'' [(''className'', ''cpl-card-title'')] [] [Text ''Hat'']]]"
  have h1: "buildCard envA ?item False = Inr ?el"
    by code_simp
  have h2: "\<not> truthy (optProp ?item ''sku'') \<and> \<not> truthy (optProp ?item ''id'')"
    by simp
  show ?thesis
    using product_identifier_and_interactivity[of ?item envA False ?el] h1 h2 by simp
qed

subsection \<open>The category label\<close>

lemma of_char_lt: "(of_char c :: nat) < 256"
  by (metis of_char_mod_256 mod_less_divisor zero_less_numeral)



lemma upperChar_eq_nonletter:
  assumes "(of_char d :: nat) < 65"
  shows "(upperChar c = d) = (c = d)"
proof
  assume u: "upperChar c = d"
  show "c = d"
  proof (cases "isLower c")
    case True
    from True have "(of_char c :: nat) - 32 < 256"
      unfolding isLower_def by arith
    then have "((of_char c :: nat) - 32) mod 256 = of_char c - 32"
      by (rule mod_less)
    with True have "(of_char (upperChar c) :: nat) = of_char c - 32"
      by (simp add: upperChar_def)
    moreover from True have "65 \<le> (of_char c :: nat) - 32"
      unfolding isLower_def by arith
    ultimately have "65 \<le> (of_char d :: nat)"
      using u by simp
    with assms show ?thesis by simp
  next
    case False
    with u show ?thesis by (simp add: upperChar_def)
  qed
next
  assume "c = d"
  with assms show "upperChar c = d"
    by (simp add: upperChar_def isLower_def)
qed

lemma upperChar_slash: "(upperChar c = CHR ''/'') = (c = CHR ''/'')"
  by (rule upperChar_eq_nonletter) simp

lemma upperChar_space: "(upperChar c = CHR '' '') = (c = CHR '' '')"
  by (rule upperChar_eq_nonletter) simp

lemma upperChar_literals [simp]:
  "upperChar CHR ''/'' = CHR ''/''" "upperChar CHR '' '' = CHR '' ''"
  using upperChar_slash[of "CHR ''/''"] upperChar_space[of "CHR '' ''"] by simp_all







lemma childNodes_appendNodes [simp]:
  "childNodes (appendNodes ns (Element t ps ls cs)) = cs @ ns"
  by simp





subsection \<open>The tag header\<close>









subsection \<open>Resolving the folder reference\<close>

lemma stripHtml_once:
  "endsWith s ''.html'' \<Longrightarrow> stripHtml s @ ''.html'' = s"
  "\<not> endsWith s ''.html'' \<Longrightarrow> stripHtml s = s"
  by (auto simp: stripHtml_def endsWith_def suffix_def)

text \<open>
  C4, as amended. A folder reference that starts with \<^verbatim>\<open>http\<close> and that \<^verbatim>\<open>new URL\<close> accepts
  is replaced by the pathname of that URL; one that starts with \<^verbatim>\<open>http\<close> and that
  \<^verbatim>\<open>new URL\<close> rejects is kept, and so is one that does not start with \<^verbatim>\<open>http\<close>; in each
  case the resolution does not throw, and a text that ends in \<^verbatim>\<open>.html\<close> loses exactly
  these five characters, once.
\<close>

theorem folder_reference_resolution:
  "(startsWith ref ''http'' \<and> urlPathname e ref = Some p \<longrightarrow>
      normalizeFolder e (CStr ref) = Inr (stripHtml p)) \<and>
   (startsWith ref ''http'' \<and> urlPathname e ref = None \<longrightarrow>
      normalizeFolder e (CStr ref) = Inr (stripHtml ref)) \<and>
   (\<not> startsWith ref ''http'' \<longrightarrow> normalizeFolder e (CStr ref) = Inr (stripHtml ref)) \<and>
   (endsWith s ''.html'' \<longrightarrow> stripHtml s @ ''.html'' = s) \<and>
   (\<not> endsWith s ''.html'' \<longrightarrow> stripHtml s = s)"
proof -
  have ne: "startsWith ref ''http'' \<Longrightarrow> ref \<noteq> []"
    by (auto simp: startsWith_def)
  show ?thesis
    using ne stripHtml_once[of s] by (auto simp: Let_def)
qed

theorem folder_reference_resolution_witness:
  "startsWith ''https://publish.example.com/content/dam/luma3/men-products.html'' ''http'' \<and>
   urlPathname envA ''https://publish.example.com/content/dam/luma3/men-products.html'' =
     Some ''/content/dam/luma3/men-products.html'' \<and>
   endsWith ''/content/dam/luma3/men-products.html'' ''.html'' \<and>
   normalizeFolder envA (CStr ''https://publish.example.com/content/dam/luma3/men-products.html'') =
     Inr ''/content/dam/luma3/men-products'' \<and>
   startsWith ''http-archive/shirts.html.html'' ''http'' \<and>
   urlPathname envA ''http-archive/shirts.html.html'' = None \<and>
   normalizeFolder envA (CStr ''http-archive/shirts.html.html'') = Inr ''http-archive/shirts.html'' \<and>
   \<not> startsWith ''/content/cat/shirts'' ''http'' \<and>
   \<not> endsWith ''/content/cat/shirts'' ''.html'' \<and>
   normalizeFolder envA (CStr ''/content/cat/shirts'') = Inr ''/content/cat/shirts''"
proof -
  let ?u = "''https://publish.example.com/content/dam/luma3/men-products.html''"
  let ?p = "''/content/dam/luma3/men-products.html''"
  let ?v = "''http-archive/shirts.html.html''"
  let ?w = "''/content/cat/shirts''"
  have h1: "startsWith ?u ''http'' \<and> urlPathname envA ?u = Some ?p"
    by code_simp
  have h2: "endsWith ?p ''.html''"
    by code_simp
  have h3: "startsWith ?v ''http'' \<and> urlPathname envA ?v = None"
    by code_simp
  have h4: "endsWith ?v ''.html''"
    by code_simp
  have h5: "\<not> startsWith ?w ''http'' \<and> \<not> endsWith ?w ''.html''"
    by code_simp
  note t1 = folder_reference_resolution[where ref = ?u and e = envA and p = ?p and s = ?p]
  note t2 = folder_reference_resolution[where ref = ?v and e = envA and s = ?v]
  note t3 = folder_reference_resolution[where ref = ?w and e = envA and s = ?w]
  from t1 h1 h2 have c1: "normalizeFolder envA (CStr ?u) = Inr (stripHtml ?p)"
    and d1: "stripHtml ?p @ ''.html'' = ?p"
    by blast+
  from d1 have "stripHtml ?p = ''/content/dam/luma3/men-products''"
    by simp
  with c1 have e1: "normalizeFolder envA (CStr ?u) = Inr ''/content/dam/luma3/men-products''"
    by simp
  from t2 h3 h4 have c2: "normalizeFolder envA (CStr ?v) = Inr (stripHtml ?v)"
    and d2: "stripHtml ?v @ ''.html'' = ?v"
    by blast+
  from d2 have "stripHtml ?v = ''http-archive/shirts.html''"
    by simp
  with c2 have e2: "normalizeFolder envA (CStr ?v) = Inr ''http-archive/shirts.html''"
    by simp
  from t3 h5 have e3: "normalizeFolder envA (CStr ?w) = Inr ?w"
    by simp
  from h1 h2 e1 h3 e2 h5 e3 show ?thesis
    by blast
qed

text \<open>
  C4 as stated fails: an absolute URL whose scheme is not \<^verbatim>\<open>http\<close> or \<^verbatim>\<open>https\<close> is not
  replaced by its path; it keeps its scheme and host and only loses \<^verbatim>\<open>.html\<close>.
\<close>

theorem other_scheme_keeps_host:
  "extractFolder (sampleEnv False [] (itemsBody []))
     (anchorBlock ''ftp://example.com/content/products.html'' ''products'') =
     CStr ''ftp://example.com/content/products.html'' \<and>
   sampleUrlPathname ''ftp://example.com/content/products.html'' = Some ''/content/products.html'' \<and>
   normalizeFolder (sampleEnv False [] (itemsBody []))
     (CStr ''ftp://example.com/content/products.html'') =
     Inr ''ftp://example.com/content/products'' \<and>
   normalizeFolder (sampleEnv False [] (itemsBody []))
     (CStr ''ftp://example.com/content/products.html'') \<noteq> Inr ''/content/products''"
  by code_simp

subsection \<open>Rendering again\<close>

lemma decorate_depends_on_config:
  assumes "extractFolder e b' = extractFolder e b"
    and "extractTags e b' = extractTags e b"
    and "extractFolder e b = CStr ref"
  shows "content (final (decorate e b')) = content (final (decorate e b))"
    and "invoked (decorate e b') = invoked (decorate e b)"
    and "requests (decorate e b') = requests (decorate e b)"
    and "console (decorate e b') = console (decorate e b)"
    and "thrown (decorate e b') = thrown (decorate e b)"
    and "dataset_cqTags (final (decorate e b')) = dataset_cqTags b'"
  using assms
  by (simp_all add: decorate_def normalizeFolder_CStr Let_def split: sum.splits)

lemma decorate_final:
  assumes "extractFolder e b = CStr ref"
  shows "final (decorate e b) = b\<lparr>content := content (final (decorate e b))\<rparr>"
  using assms
  by (simp add: decorate_def normalizeFolder_CStr Let_def split: sum.splits)

text \<open>
  C8, as amended. For a folder reference that is a string, what \<^verbatim>\<open>decorate\<close> renders,
  sends, logs and throws depends on the container only through the folder reference and
  the tags read from it: the earlier content is replaced, nothing is appended to it. So
  rendering the rendered container again gives the same outcome whenever the folder
  reference and the tags read from the rendered container are those read the first time.
\<close>

theorem render_replaces_content:
  assumes "extractFolder e b' = extractFolder e b"
    and "extractTags e b' = extractTags e b"
    and "extractFolder e b = CStr ref"
  shows "content (final (decorate e b')) = content (final (decorate e b)) \<and>
         invoked (decorate e b') = invoked (decorate e b) \<and>
         requests (decorate e b') = requests (decorate e b) \<and>
         console (decorate e b') = console (decorate e b) \<and>
         thrown (decorate e b') = thrown (decorate e b) \<and>
         (b' = final (decorate e b) \<longrightarrow> decorate e b' = decorate e b)"
proof -
  note d = decorate_depends_on_config[OF assms]
  have "decorate e b' = decorate e b" if eq: "b' = final (decorate e b)"
  proof -
    from assms have r': "extractFolder e b' = CStr ref" by simp
    have "final (decorate e b') = b'\<lparr>content := content (final (decorate e b'))\<rparr>"
      by (rule decorate_final[OF r'])
    also have "\<dots> = b'\<lparr>content := content (final (decorate e b))\<rparr>"
      using d(1) by simp
    also have "\<dots> = final (decorate e b)"
      using eq decorate_final[OF assms(3)] by simp
    finally have "final (decorate e b') = final (decorate e b)" .
    with d show ?thesis
      by (simp add: outcome.equality)
  qed
  with d show ?thesis by blast
qed

theorem render_replaces_content_witness:
  "extractFolder (sampleEnv False [] (itemsBody [shoe]))
     (final (decorate (sampleEnv False [] (itemsBody [shoe])) (plainBlock (Some ''red'')))) =
   extractFolder (sampleEnv False [] (itemsBody [shoe])) (plainBlock (Some ''red'')) \<and>
   extractTags (sampleEnv False [] (itemsBody [shoe]))
     (final (decorate (sampleEnv False [] (itemsBody [shoe])) (plainBlock (Some ''red'')))) =
   extractTags (sampleEnv False [] (itemsBody [shoe])) (plainBlock (Some ''red'')) \<and>
   extractFolder (sampleEnv False [] (itemsBody [shoe])) (plainBlock (Some ''red'')) = CStr [] \<and>
   content (plainBlock (Some ''red'')) = [Element ''div'' [] [] [Text ''products'']] \<and>
   content (final (decorate (sampleEnv False [] (itemsBody [shoe])) (plainBlock (Some ''red'')))) =
     [Element ''div'' [(''className'', ''cpl-tags'')] []
        [Element ''span'' [(''className'', ''cpl-tag'')] [] [Text ''red'']],
      Element ''div'' [(''className'', ''cpl-grid'')] []
        [Element ''p'' [(''className'', ''cpl-empty'')] [] [Text ''No products found.'']]] \<and>
   decorate (sampleEnv False [] (itemsBody [shoe]))
     (final (decorate (sampleEnv False [] (itemsBody [shoe])) (plainBlock (Some ''red'')))) =
   decorate (sampleEnv False [] (itemsBody [shoe])) (plainBlock (Some ''red''))"
proof -
  let ?E = "sampleEnv False [] (itemsBody [shoe])"
  let ?B = "plainBlock (Some ''red'')"
  have h1: "extractFolder ?E (final (decorate ?E ?B)) = extractFolder ?E ?B"
    by code_simp
  have h2: "extractTags ?E (final (decorate ?E ?B)) = extractTags ?E ?B"
    by code_simp
  have h3: "extractFolder ?E ?B = CStr []"
    by code_simp
  have h4: "content ?B = [Element ''div'' [] [] [Text ''products'']]"
    by code_simp
  have h5: "content (final (decorate ?E ?B)) =
     [Element ''div'' [(''className'', ''cpl-tags'')] []
        [Element ''span'' [(''className'', ''cpl-tag'')] [] [Text ''red'']],
      Element ''div'' [(''className'', ''cpl-grid'')] []
        [Element ''p'' [(''className'', ''cpl-empty'')] [] [Text ''No products found.'']]]"
    by code_simp
  from render_replaces_content[OF h1 h2 h3]
  have c: "decorate ?E (final (decorate ?E ?B)) = decorate ?E ?B"
    by blast
  from h1 h2 h3 h4 h5 c show ?thesis
    by blast
qed

text \<open>
  C8 as stated fails: the first render clears the authored link the folder was read
  from, so a second render of the same container finds no folder and shows the empty
  state where the first one showed a card.
\<close>

theorem second_render_loses_folder:
  "content (final (decorate (sampleEnv False [] (itemsBody [shoe])) blockA)) =
     [Element ''div'' [(''className'', ''cpl-grid'')] []
        [Element ''article'' [(''className'', ''cpl-card''), (''style.cursor'', ''pointer'')]
            [ClickNavigate False (JStr ''M1'')]
            [Element ''div'' [(''className'', ''cpl-card-media'')] []
               [Element ''picture'' [] []
                  [Element ''img''
                     [(''src'', ''http://x/img.png''), (''alt'', ''Shoe''), (''loading'', ''lazy'')]
                     [] []]],
             Element ''div'' [(''className'', ''cpl-card-meta'')] []
               [Element ''p'' [(''className'', ''cpl-card-category'')] [] [Text ''MEN''],
                Element ''h3'' [(''className'', ''cpl-card-title'')] [] [Text ''Shoe'']]]]] \<and>
   content (final (decorate (sampleEnv False [] (itemsBody [shoe]))
                     (final (decorate (sampleEnv False [] (itemsBody [shoe])) blockA)))) =
     [Element ''div'' [(''className'', ''cpl-grid'')] []
        [Element ''p'' [(''className'', ''cpl-empty'')] [] [Text ''No products found.'']]] \<and>
   decorate (sampleEnv False [] (itemsBody [shoe]))
     (final (decorate (sampleEnv False [] (itemsBody [shoe])) blockA)) \<noteq>
   decorate (sampleEnv False [] (itemsBody [shoe])) blockA"
proof -
  let ?E = "sampleEnv False [] (itemsBody [shoe])"
  have a: "content (final (decorate ?E blockA)) =
     [Element ''div'' [(''className'', ''cpl-grid'')] []
        [Element ''article'' [(''className'', ''cpl-card''), (''style.cursor'', ''pointer'')]
            [ClickNavigate False (JStr ''M1'')]
            [Element ''div'' [(''className'', ''cpl-card-media'')] []
               [Element ''picture'' [] []
                  [Element ''img''
                     [(''src'', ''http://x/img.png''), (''alt'', ''Shoe''), (''loading'', ''lazy'')]
                     [] []]],
             Element ''div'' [(''className'', ''cpl-card-meta'')] []
               [Element ''p'' [(''className'', ''cpl-card-category'')] [] [Text ''MEN''],
                Element ''h3'' [(''className'', ''cpl-card-title'')] [] [Text ''Shoe'']]]]]"
    by code_simp
  have b: "content (final (decorate ?E (final (decorate ?E blockA)))) =
     [Element ''div'' [(''className'', ''cpl-grid'')] []
        [Element ''p'' [(''className'', ''cpl-empty'')] [] [Text ''No products found.'']]]"
    by code_simp
  have "content (final (decorate ?E (final (decorate ?E blockA)))) \<noteq>
        content (final (decorate ?E blockA))"
    unfolding a b by simp
  then have "decorate ?E (final (decorate ?E blockA)) \<noteq> decorate ?E blockA"
    by auto
  with a b show ?thesis by blast
qed

subsection \<open>The category parameter\<close>

lemma split_no_sep: "c \<notin> set x \<Longrightarrow> split c x = [x]"
  by (induction x) auto

lemma split_at_sep: "c \<notin> set x \<Longrightarrow> split c (x @ c # rest) = x # split c rest"
  by (induction x) auto

lemma split_join:
  assumes "ts \<noteq> []" and "\<forall>x \<in> set ts. c \<notin> set x"
  shows "split c (join [c] ts) = ts"
  using assms
proof (induction ts)
  case Nil
  then show ?case by simp
next
  case (Cons x ts)
  show ?case
  proof (cases ts)
    case Nil
    with Cons.prems show ?thesis by (simp add: split_no_sep)
  next
    case (Cons y ys)
    with Cons.IH Cons.prems have ih: "split c (join [c] (y # ys)) = y # ys"
      by simp
    have j: "join [c] (x # y # ys) = x @ c # join [c] (y # ys)"
      by simp
    from Cons.prems have "c \<notin> set x"
      by simp
    then have "split c (x @ c # join [c] (y # ys)) = x # split c (join [c] (y # ys))"
      by (rule split_at_sep)
    with ih j have "split c (join [c] (x # y # ys)) = x # y # ys"
      by (simp only:)
    with Cons show ?thesis
      by (simp only:)
  qed
qed

lemma hex_round_trip: "\<forall>n \<in> set [0 ..< 16]. hexValue (hexDigit n) = Some n"
  by code_simp

lemma hexValue_hexDigit: "n < 16 \<Longrightarrow> hexValue (hexDigit n) = Some n"
  using hex_round_trip by simp

lemma decode_encodeChar:
  "decodeURIComponent (encodeChar c @ rest) = map_option ((#) c) (decodeURIComponent rest)"
proof (cases "isUnreserved c")
  case True
  then have "c \<noteq> CHR ''%''"
    by (auto simp: isUnreserved_def)
  with True show ?thesis
    by (simp add: encodeChar_def)
next
  case False
  have d: "(of_char c :: nat) div 16 < 16"
    by (rule less_mult_imp_div_less) (use of_char_lt[of c] in simp)
  have "char_of (16 * ((of_char c :: nat) div 16) + of_char c mod 16) = c"
    by simp
  with False d show ?thesis
    by (simp add: encodeChar_def hexValue_hexDigit)
qed

lemma decode_encode: "decodeURIComponent (encodeURIComponent s) = Some s"
proof (induction s)
  case Nil
  then show ?case by (simp add: encodeURIComponent_def)
next
  case (Cons c s)
  have "encodeURIComponent (c # s) = encodeChar c @ encodeURIComponent s"
    by (simp add: encodeURIComponent_def)
  with Cons show ?case
    by (simp add: decode_encodeChar)
qed

lemma category_request:
  assumes "path \<noteq> []"
  shows "sent (fetchCategoryFilteredProducts e path t) =
           [get (categoryBaseUrl (isAuthorEnvironment e) @ ''_path='' @ path @
                 (if truthyC t then ''&category='' @ encodeURIComponent (categoryParam t) else []))]"
  using assms
  by (simp add: fetchCategoryFilteredProducts_def Let_def split: response.splits)

text \<open>
  C2, as amended. When the resolved folder path is not a legacy path, \<^verbatim>\<open>decorate\<close> invokes
  the category strategy; for a non-empty path it sends one request, whose URL carries
  \<^verbatim>\<open>&category=\<close> exactly when the tags value is a non-empty string or an array, and the
  value is \<^verbatim>\<open>encodeURIComponent\<close> of the string as authored, or of the array joined by
  commas. Decoding gives that value back, and splitting the joined value of a non-empty
  array of tags without commas gives the array back.
\<close>

theorem category_path_uses_category_strategy:
  assumes "normalizeFolder e (extractFolder e b) = Inr path"
    and "\<not> isLegacyLuma3 path"
  shows "invoked (decorate e b) = Some CategoryFiltered \<and>
         (path \<noteq> [] \<longrightarrow>
            requests (decorate e b) =
              [get (categoryBaseUrl (isAuthorEnvironment e) @ ''_path='' @ path @
                    (if truthyC (extractTags e b)
                     then ''&category='' @ encodeURIComponent (categoryParam (extractTags e b))
                     else []))]) \<and>
         decodeURIComponent (encodeURIComponent (categoryParam (extractTags e b))) =
           Some (categoryParam (extractTags e b)) \<and>
         (ts \<noteq> [] \<and> (\<forall>x \<in> set ts. CHR '','' \<notin> set x) \<longrightarrow>
            truthyC (CArr ts) \<and> split CHR '','' (categoryParam (CArr ts)) = ts)"
proof -
  have a: "invoked (decorate e b) = Some CategoryFiltered"
    using decorate_folder(1)[OF assms(1)] assms(2) by simp
  have b: "path \<noteq> [] \<longrightarrow>
            requests (decorate e b) =
              [get (categoryBaseUrl (isAuthorEnvironment e) @ ''_path='' @ path @
                    (if truthyC (extractTags e b)
                     then ''&category='' @ encodeURIComponent (categoryParam (extractTags e b))
                     else []))]"
    using decorate_folder(2)[OF assms(1)] assms(2) category_request[of path e "extractTags e b"]
    by simp
  have c: "ts \<noteq> [] \<and> (\<forall>x \<in> set ts. CHR '','' \<notin> set x) \<longrightarrow>
            truthyC (CArr ts) \<and> split CHR '','' (categoryParam (CArr ts)) = ts"
    using split_join[of ts "CHR '',''"] by simp
  from a b c decode_encode[of "categoryParam (extractTags e b)"] show ?thesis
    by blast
qed

theorem category_path_uses_category_strategy_witness:
  "normalizeFolder envB (extractFolder envB (plainBlock None)) = Inr ''/content/cat/shirts'' \<and>
   \<not> isLegacyLuma3 ''/content/cat/shirts'' \<and>
   ''/content/cat/shirts'' \<noteq> [] \<and>
   extractTags envB (plainBlock None) = CStr ''red, blue'' \<and>
   [''red'', ''blue''] \<noteq> [] \<and> CHR '','' \<notin> set ''red'' \<and> CHR '','' \<notin> set ''blue'' \<and>
   invoked (decorate envB (plainBlock None)) = Some CategoryFiltered \<and>
   map url (requests (decorate envB (plainBlock None))) =
     [''https://275323-918sangriatortoise.adobeioruntime.net/api/v1/web/dx-excshell-1/categoryFilteredProductsLister?_path=/content/cat/shirts&category=red%2C%20blue''] \<and>
   decodeURIComponent ''red%2C%20blue'' = Some ''red, blue'' \<and>
   categoryParam (CArr [''red'', ''blue'']) = ''red,blue'' \<and>
   split CHR '','' ''red,blue'' = [''red'', ''blue'']"
proof -
  let ?B = "plainBlock None"
  let ?p = "''/content/cat/shirts''"
  have h1: "normalizeFolder envB (extractFolder envB ?B) = Inr ?p"
    by code_simp
  have h2: "\<not> isLegacyLuma3 ?p"
    by code_simp
  have h3: "?p \<noteq> []"
    by simp
  have h4: "extractTags envB ?B = CStr ''red, blue''"
    by code_simp
  have h5: "[''red'', ''blue''] \<noteq> [] \<and> (\<forall>x \<in> set [''red'', ''blue'']. CHR '','' \<notin> set x)"
    by simp
  have h6: "categoryBaseUrl (isAuthorEnvironment envB) @ ''_path='' @ ?p @
              ''&category='' @ encodeURIComponent (categoryParam (CStr ''red, blue'')) =
     ''https://275323-918sangriatortoise.adobeioruntime.net/api/v1/web/dx-excshell-1/categoryFilteredProductsLister?_path=/content/cat/shirts&category=red%2C%20blue''"
    by code_simp
  have h7: "encodeURIComponent (categoryParam (CStr ''red, blue'')) = ''red%2C%20blue''"
    by code_simp
  have h8: "categoryParam (CArr [''red'', ''blue'']) = ''red,blue''"
    by simp
  note t = category_path_uses_category_strategy[OF h1 h2, where ts = "[''red'', ''blue'']"]
  from t have c1: "invoked (decorate envB ?B) = Some CategoryFiltered"
    by blast
  from t h3 have "requests (decorate envB ?B) =
              [get (categoryBaseUrl (isAuthorEnvironment envB) @ ''_path='' @ ?p @
                    (if truthyC (extractTags envB ?B)
                     then ''&category='' @ encodeURIComponent (categoryParam (extractTags envB ?B))
                     else []))]"
    by blast
  then have c2: "map url (requests (decorate envB ?B)) =
     [''https://275323-918sangriatortoise.adobeioruntime.net/api/v1/web/dx-excshell-1/categoryFilteredProductsLister?_path=/content/cat/shirts&category=red%2C%20blue'']"
    using h6 by (simp add: h4 get_def)
  from t have "decodeURIComponent (encodeURIComponent (categoryParam (extractTags envB ?B))) =
           Some (categoryParam (extractTags envB ?B))"
    by blast
  then have c3: "decodeURIComponent ''red%2C%20blue'' = Some ''red, blue''"
    using h7 by (simp add: h4)
  from t h5 have "split CHR '','' (categoryParam (CArr [''red'', ''blue''])) = [''red'', ''blue'']"
    by blast
  then have c4: "split CHR '','' ''red,blue'' = [''red'', ''blue'']"
    by (simp only: h8)
  have h9: "CHR '','' \<notin> set ''red'' \<and> CHR '','' \<notin> set ''blue''"
    by simp
  from h1 h2 h3 h4 h9 c1 c2 c3 h8 c4 show ?thesis
    by blast
qed

text \<open>
  C2 as stated fails: the tags are sent as authored, so for \<^verbatim>\<open>red, blue\<close> the URL carries
  \<^verbatim>\<open>category=red%2C%20blue\<close>, not \<^verbatim>\<open>category=red%2Cblue\<close>, and splitting the value on
  commas gives \<^verbatim>\<open>red\<close> and \<^verbatim>\<open> blue\<close>, not the trimmed tags.
\<close>

theorem category_value_is_not_trimmed:
  "extractTags envB (plainBlock None) = CStr ''red, blue'' \<and>
   map url (requests (decorate envB (plainBlock None))) =
     [''https://275323-918sangriatortoise.adobeioruntime.net/api/v1/web/dx-excshell-1/categoryFilteredProductsLister?_path=/content/cat/shirts&category=red%2C%20blue''] \<and>
   \<not> includesStr
       ''https://275323-918sangriatortoise.adobeioruntime.net/api/v1/web/dx-excshell-1/categoryFilteredProductsLister?_path=/content/cat/shirts&category=red%2C%20blue''
       ''category=red%2Cblue'' \<and>
   split CHR '','' (categoryParam (CStr ''red, blue'')) = [''red'', '' blue''] \<and>
   chips (CStr ''red, blue'') = [''red'', ''blue''] \<and>
   split CHR '','' (categoryParam (CStr ''red, blue'')) \<noteq> chips (CStr ''red, blue'')"
  by code_simp

end
